theory Spec2Isabelle
  imports Main
begin

section \<open>ThreadPool::JobType: the life cycle of a reusable job\<close>

text \<open>
  The embedding follows \<^verbatim>\<open>Source/core/ThreadPool.h\<close>. Every member function of
  \<^verbatim>\<open>JobType\<close> is a short, loop-free sequence of single
  \<^verbatim>\<open>compare_exchange_strong\<close> attempts on the atomic \<^verbatim>\<open>_state\<close>. A member function is
  modelled as one uninterrupted run of that sequence: it takes the object and returns the
  object it leaves behind, next to its result. The short-circuit evaluation of \<^verbatim>\<open>&&\<close> and
  \<^verbatim>\<open>||\<close> is written out, so that an attempt the C++ does not reach is not made here either.
\<close>

datatype state = IDLE | SUBMITTED | EXECUTING | RESUBMIT | SCHEDULE | REVOKING

text \<open>
  A \<^verbatim>\<open>ProxyType<IDispatch>\<close> is either empty (\<^verbatim>\<open>IsValid() == false\<close>) or refers to a
  dispatch object. Two proxies compare equal when they refer to the same object, so a valid
  proxy is the identity of the object it refers to and a proxy is a \<open>handle option\<close>.
\<close>

type_synonym handle = nat

text \<open>
  Modelled from the spec: \<^verbatim>\<open>Core::Time\<close> is declared in a header that is not among the
  sources. The spec calls the stored time an optional wall-clock instant: \<open>None\<close> is a
  \<^verbatim>\<open>Time\<close> whose \<^verbatim>\<open>IsValid()\<close> is false (a default constructed one), \<open>Some n\<close> a valid
  instant of \<open>n\<close> ticks, ordered by its ticks.
\<close>

type_synonym time = "nat option"

text \<open>
  \<^verbatim>\<open>IMPLEMENTATION\<close> is a template parameter, here a type parameter. The one member the
  job uses is \<^verbatim>\<open>_implementation.Dispatch()\<close>, user code that runs while the job object is
  live and may call the job's public members. It is passed to \<open>Dispatch\<close> as the function
  \<open>body\<close>, applied to the job as the call finds it.
\<close>

record 'impl JobType =
  implementation :: 'impl
  state :: state
  job :: handle
  time :: time

text \<open>The constructor: \<^verbatim>\<open>_state(IDLE)\<close>, \<^verbatim>\<open>_job(*this)\<close>, \<^verbatim>\<open>_time()\<close>.\<close>

definition JobType_new :: "'impl \<Rightarrow> handle \<Rightarrow> 'impl JobType" where
  "JobType_new args self =
     \<lparr>implementation = args, state = IDLE, job = self, time = None\<rparr>"

text \<open>
  \<^verbatim>\<open>_state.compare_exchange_strong(expected, desired)\<close>: writes \<open>desired\<close> and
  returns true when the state is \<open>expected\<close>, returns false and writes nothing otherwise.
  (On failure the C++ also loads the current state into the local \<open>expected\<close>; each local
  is used for one attempt only, so the loaded value is never read.)
\<close>

definition compare_exchange_strong ::
  "state \<Rightarrow> state \<Rightarrow> 'impl JobType \<Rightarrow> bool \<times> 'impl JobType" where
  "compare_exchange_strong expected desired j =
     (if state j = expected then (True, j\<lparr>state := desired\<rparr>) else (False, j))"

definition IsIdle :: "'impl JobType \<Rightarrow> bool" where
  "IsIdle j = (state j = IDLE)"

definition Idle :: "'impl JobType \<Rightarrow> handle option \<times> 'impl JobType" where
  "Idle j0 =
     (let (idle, j1) = compare_exchange_strong IDLE SUBMITTED j0 in
      if idle then (Some (job j1), j1) else (None, j1))"

definition Submit :: "'impl JobType \<Rightarrow> handle option \<times> 'impl JobType" where
  "Submit j0 =
     (let (executing, j1) = compare_exchange_strong EXECUTING RESUBMIT j0 in
      if executing then (None, j1)
      else
        let (schedule, j2) = compare_exchange_strong SCHEDULE RESUBMIT j1 in
        if schedule then (None, j2)
        else
          let (idle, j3) = compare_exchange_strong IDLE SUBMITTED j2 in
          if idle then (Some (job j3), j3) else (None, j3))"

text \<open>
  \<^verbatim>\<open>Reschedule\<close>: the handle is produced in the \<^verbatim>\<open>if\<close> branch and
  \<^verbatim>\<open>_time = time\<close> is the \<^verbatim>\<open>else\<close> branch, so the time is stored on exactly the paths
  that produce no handle.
\<close>

definition Reschedule :: "time \<Rightarrow> 'impl JobType \<Rightarrow> handle option \<times> 'impl JobType" where
  "Reschedule tm j0 =
     (let (executing, j1) = compare_exchange_strong EXECUTING SCHEDULE j0 in
      if executing then (None, j1\<lparr>time := tm\<rparr>)
      else
        let (resubmit, j2) = compare_exchange_strong RESUBMIT SCHEDULE j1 in
        if resubmit then (None, j2\<lparr>time := tm\<rparr>)
        else
          let (submitted, j3) = compare_exchange_strong SUBMITTED SCHEDULE j2 in
          if submitted then (Some (job j3), j3)
          else
            let (idle, j4) = compare_exchange_strong IDLE SCHEDULE j3 in
            if idle then (Some (job j4), j4) else (None, j4\<lparr>time := tm\<rparr>))"

definition RevokeRequired :: "'impl JobType \<Rightarrow> bool \<times> 'impl JobType" where
  "RevokeRequired j0 =
     (if state j0 = REVOKING then (True, j0)
      else
        let (submitted, j1) = compare_exchange_strong SUBMITTED REVOKING j0 in
        if submitted then (True, j1)
        else
          let (executing, j2) = compare_exchange_strong EXECUTING REVOKING j1 in
          if executing then (True, j2)
          else
            let (resubmit, j3) = compare_exchange_strong RESUBMIT REVOKING j2 in
            if resubmit then (True, j3)
            else
              let (schedule, j4) = compare_exchange_strong SCHEDULE REVOKING j3 in
              if schedule then (True, j4) else (False, j4))"

definition Revoke :: "'impl JobType \<Rightarrow> handle option \<times> 'impl JobType" where
  "Revoke j0 =
     (let (required, j1) = RevokeRequired j0 in
      if required then (Some (job j1), j1) else (None, j1))"

text \<open>
  \<^verbatim>\<open>Revoked\<close> asserts that its exchange succeeds; the failed assertion is the result
  \<open>None\<close>.
\<close>

definition Revoked :: "'impl JobType \<Rightarrow> 'impl JobType option" where
  "Revoked j0 =
     (let (result, j1) = compare_exchange_strong REVOKING IDLE j0 in
      if result then Some j1 else None)"

text \<open>
  \<^verbatim>\<open>Resubmit(Time& time)\<close>: the reference parameter is passed in and returned as the
  second component of the result.
\<close>

definition Resubmit ::
  "time \<Rightarrow> 'impl JobType \<Rightarrow> handle option \<times> time \<times> 'impl JobType" where
  "Resubmit tm j0 =
     (let (executing, j1) = compare_exchange_strong EXECUTING IDLE j0 in
      if executing then (None, tm, j1)
      else
        let (resubmit, j2) = compare_exchange_strong RESUBMIT SUBMITTED j1 in
        if resubmit then (Some (job j2), tm, j2)
        else
          let (schedule, j3) = compare_exchange_strong SCHEDULE SUBMITTED j2 in
          if schedule then (Some (job j3), time j3, j3) else (None, tm, j3))"

definition Dispatch ::
  "('impl JobType \<Rightarrow> 'impl JobType) \<Rightarrow> 'impl JobType \<Rightarrow> 'impl JobType" where
  "Dispatch body j0 =
     (let (expected, j1) = compare_exchange_strong SUBMITTED EXECUTING j0 in
      if expected then body j1 else j1)"


section \<open>ThreadPool: revoking a job and the closure of a run\<close>

text \<open>
  The error codes \<^verbatim>\<open>ThreadPool::Revoke\<close> and \<^verbatim>\<open>Minion::Completed\<close> use. Their
  numeric values are defined outside the sources and play no role.
\<close>

datatype error = ERROR_NONE | ERROR_TIMEDOUT | ERROR_UNKNOWN_KEY

type_synonym ThreadId = nat

text \<open>
  Modelled from the spec: \<^verbatim>\<open>Core::Event\<close> is not among the sources. The spec gives
  the outcome of the wait \<^verbatim>\<open>_signal.Lock(waitTime)\<close> as OK when the event is signalled
  within the wait time and TIMEDOUT otherwise. The field \<open>signal\<close> tells, for a wait time,
  whether the minion signals within it.
\<close>

record Minion =
  signal :: "nat \<Rightarrow> bool"
  currentRequest :: "handle option"

definition Lock_signal :: "Minion \<Rightarrow> nat \<Rightarrow> error" where
  "Lock_signal m waitTime = (if signal m waitTime then ERROR_NONE else ERROR_TIMEDOUT)"

text \<open>
  \<^verbatim>\<open>Minion::Completed\<close>. The second component of the result tells whether the
  caller blocked on the minion's event. \<^verbatim>\<open>_interestCount\<close> is incremented before the
  wait and decremented after it, so a call that has returned leaves the minion as it
  found it.
\<close>

definition Completed :: "handle \<Rightarrow> nat \<Rightarrow> Minion \<Rightarrow> error \<times> bool" where
  "Completed request waitTime m =
     (if currentRequest m \<noteq> Some request then (ERROR_UNKNOWN_KEY, False)
      else (Lock_signal m waitTime, True))"

text \<open>An \<^verbatim>\<open>Executor\<close> is a thread, known by its \<^verbatim>\<open>Id()\<close>, that runs a minion.\<close>

record Executor =
  Id_thread :: ThreadId
  Me :: Minion

text \<open>
  Modelled from the spec: \<^verbatim>\<open>QueueType\<close> is not among the sources. The spec describes
  \<^verbatim>\<open>remove(h)\<close> as a linear search that removes the entry and returns true if it was
  found.
\<close>

definition Remove :: "handle \<Rightarrow> handle list \<Rightarrow> bool \<times> handle list" where
  "Remove request q = (if request \<in> set q then (True, remove1 request q) else (False, q))"

text \<open>
  The pool: the queue of handles, the executors in the order of \<^verbatim>\<open>_units\<close>, and whether
  \<^verbatim>\<open>_scheduler\<close> is set (\<open>False\<close> is \<^verbatim>\<open>nullptr\<close>).
\<close>

record ThreadPool =
  queue :: "handle list"
  units :: "Executor list"
  scheduler :: bool

text \<open>
  The loop of \<^verbatim>\<open>ThreadPool::Revoke\<close> over \<^verbatim>\<open>_units\<close>, entered with the result so far and
  the threads the caller has waited on so far. \<open>caller\<close> is \<^verbatim>\<open>Thread::ThreadId()\<close>, the
  thread that runs the call.
\<close>

fun Revoke_units ::
  "ThreadId \<Rightarrow> handle \<Rightarrow> nat \<Rightarrow> error \<times> ThreadId list \<Rightarrow> Executor list
     \<Rightarrow> error \<times> ThreadId list" where
  "Revoke_units caller request waitTime (result, waited) [] = (result, waited)"
| "Revoke_units caller request waitTime (result, waited) (index # rest) =
     (if result \<noteq> ERROR_UNKNOWN_KEY then (result, waited)
      else if Id_thread index = caller
      then Revoke_units caller request waitTime (ERROR_NONE, waited) rest
      else
        let (outcome, blocked) = Completed request waitTime (Me index);
            waited' = (if blocked then waited @ [Id_thread index] else waited)
        in
          if outcome = ERROR_NONE \<or> outcome = ERROR_TIMEDOUT
          then Revoke_units caller request waitTime (outcome, waited') rest
          else Revoke_units caller request waitTime (result, waited') rest)"

text \<open>
  \<^verbatim>\<open>ThreadPool::Revoke\<close> returns the error code; the model returns next to it the threads
  waited on and the pool with the queue as \<^verbatim>\<open>Remove\<close> left it.
\<close>

definition ThreadPool_Revoke ::
  "ThreadId \<Rightarrow> handle \<Rightarrow> nat \<Rightarrow> ThreadPool \<Rightarrow> (error \<times> ThreadId list) \<times> ThreadPool" where
  "ThreadPool_Revoke caller request waitTime p =
     (let (removed, q) = Remove request (queue p) in
      if removed then ((ERROR_NONE, []), p\<lparr>queue := q\<rparr>)
      else (Revoke_units caller request waitTime (ERROR_UNKNOWN_KEY, []) (units p),
            p\<lparr>queue := q\<rparr>))"

text \<open>
  \<^verbatim>\<open>ThreadPool::Closure\<close> runs between \<^verbatim>\<open>_queue.Lock()\<close> and \<^verbatim>\<open>_queue.Unlock()\<close>. What it
  does to the rest of the pool is the calls it makes on the queue and on the scheduler;
  they are returned in the order made. Its argument is any \<^verbatim>\<open>IJob\<close>, given by its
  \<^verbatim>\<open>Resubmit\<close>; \<open>now\<close> is the ticks of \<^verbatim>\<open>Time::Now()\<close>.
\<close>

datatype call = Post handle | Schedule time handle

definition IsValid :: "time \<Rightarrow> bool" where
  "IsValid tm = (tm \<noteq> None)"

definition Ticks :: "time \<Rightarrow> nat" where
  "Ticks tm = (case tm of None \<Rightarrow> 0 | Some n \<Rightarrow> n)"

definition Closure ::
  "(time \<Rightarrow> 'j \<Rightarrow> handle option \<times> time \<times> 'j) \<Rightarrow> nat \<Rightarrow> ThreadPool \<Rightarrow> 'j \<Rightarrow> call list \<times> 'j" where
  "Closure IJob_Resubmit now p j0 =
     (let (resubmit, scheduleTime, j1) = IJob_Resubmit None j0 in
      case resubmit of
        None \<Rightarrow> ([], j1)
      | Some h \<Rightarrow>
          if \<not> IsValid scheduleTime \<or> \<not> scheduler p \<or> Ticks scheduleTime < now
          then ([Post h], j1)
          else ([Schedule scheduleTime h], j1))"

section \<open>Sequences of operations on one job\<close>

text \<open>
  The six operations on a job. Each is one call of one member function of \<^verbatim>\<open>JobType\<close>:
  \<^verbatim>\<open>Submit()\<close>, \<^verbatim>\<open>Reschedule(t)\<close>, \<^verbatim>\<open>Revoke()\<close>, the \<^verbatim>\<open>Dispatch()\<close> callback a worker makes,
  the \<^verbatim>\<open>Resubmit(time)\<close> callback \<^verbatim>\<open>ThreadPool::Closure\<close> makes with a default constructed
  time, and \<^verbatim>\<open>Revoked()\<close>.
\<close>

datatype op = OpSubmit | OpReschedule time | OpRevoke | OpDispatch | OpResubmit | OpRevoked

text \<open>
  \<open>perform x j\<close> is the call \<open>x\<close> on the job \<open>j\<close>: the proxy the call returns (\<open>None\<close> for an
  empty proxy and for a member function that returns nothing) and the job it leaves. The
  result is \<open>None\<close> when the assertion of \<^verbatim>\<open>Revoked\<close> fails. Whatever the body of the
  implementation does to the job it does through these member functions, as further
  operations; \<^verbatim>\<open>Dispatch\<close> itself is performed with a body that leaves the job alone.
\<close>

fun perform :: "op \<Rightarrow> 'impl JobType \<Rightarrow> (handle option \<times> 'impl JobType) option" where
  "perform OpSubmit j = Some (Submit j)"
| "perform (OpReschedule tm) j = Some (Reschedule tm j)"
| "perform OpRevoke j = Some (Revoke j)"
| "perform OpDispatch j = Some (None, Dispatch id j)"
| "perform OpResubmit j = (case Resubmit None j of (result, tm, j') \<Rightarrow> Some (result, j'))"
| "perform OpRevoked j = (case Revoked j of None \<Rightarrow> None | Some j' \<Rightarrow> Some (None, j'))"

text \<open>
  A sequence of operations, performed one after the other: the proxies returned, in order,
  and the job left.
\<close>

fun perform_all ::
  "op list \<Rightarrow> 'impl JobType \<Rightarrow> (handle option list \<times> 'impl JobType) option" where
  "perform_all [] j = Some ([], j)"
| "perform_all (x # xs) j =
     (case perform x j of
        None \<Rightarrow> None
      | Some (h, j') \<Rightarrow>
          (case perform_all xs j' of
             None \<Rightarrow> None
           | Some (hs, j'') \<Rightarrow> Some (h # hs, j'')))"



section \<open>The outcome of a revoke, as the specification words it\<close>

text \<open>
  The specification of \<^verbatim>\<open>revoke(handle, waitMs)\<close>: OK if the handle is removed from the
  queue. Otherwise the workers are taken in order: a worker whose thread is the caller's
  gives OK; any other worker is asked \<^verbatim>\<open>completed(handle, waitMs)\<close>, a worker that answers
  UNKNOWN_KEY is skipped and the first other answer is the outcome. With no worker left the
  outcome is UNKNOWN_KEY.
\<close>

fun first_outcome :: "ThreadId \<Rightarrow> handle \<Rightarrow> nat \<Rightarrow> Executor list \<Rightarrow> error" where
  "first_outcome caller request waitTime [] = ERROR_UNKNOWN_KEY"
| "first_outcome caller request waitTime (u # us) =
     (if Id_thread u = caller then ERROR_NONE
      else if fst (Completed request waitTime (Me u)) = ERROR_UNKNOWN_KEY
      then first_outcome caller request waitTime us
      else fst (Completed request waitTime (Me u)))"

definition Revoke_spec :: "ThreadId \<Rightarrow> handle \<Rightarrow> nat \<Rightarrow> ThreadPool \<Rightarrow> error" where
  "Revoke_spec caller request waitTime p =
     (if fst (Remove request (queue p)) then ERROR_NONE
      else first_outcome caller request waitTime (units p))"

text \<open>
  A worker the loop of \<^verbatim>\<open>ThreadPool::Revoke\<close> passes over: its thread is not the caller's
  and its \<^verbatim>\<open>Completed\<close> answers neither OK nor TIMEDOUT.
\<close>

definition passed_over :: "ThreadId \<Rightarrow> handle \<Rightarrow> nat \<Rightarrow> Executor \<Rightarrow> bool" where
  "passed_over caller request waitTime u =
     (Id_thread u \<noteq> caller \<and>
      fst (Completed request waitTime (Me u)) \<noteq> ERROR_NONE \<and>
      fst (Completed request waitTime (Me u)) \<noteq> ERROR_TIMEDOUT)"

section \<open>The transitions of the job, state by state\<close>

lemma Submit_cases:
  "Submit j =
     (case state j of
        IDLE \<Rightarrow> (Some (job j), j\<lparr>state := SUBMITTED\<rparr>)
      | EXECUTING \<Rightarrow> (None, j\<lparr>state := RESUBMIT\<rparr>)
      | SCHEDULE \<Rightarrow> (None, j\<lparr>state := RESUBMIT\<rparr>)
      | SUBMITTED \<Rightarrow> (None, j)
      | RESUBMIT \<Rightarrow> (None, j)
      | REVOKING \<Rightarrow> (None, j))"
  by (cases "state j") (simp_all add: Submit_def compare_exchange_strong_def)

lemma Reschedule_cases:
  "Reschedule tm j =
     (case state j of
        IDLE \<Rightarrow> (Some (job j), j\<lparr>state := SCHEDULE\<rparr>)
      | SUBMITTED \<Rightarrow> (Some (job j), j\<lparr>state := SCHEDULE\<rparr>)
      | EXECUTING \<Rightarrow> (None, j\<lparr>state := SCHEDULE, time := tm\<rparr>)
      | RESUBMIT \<Rightarrow> (None, j\<lparr>state := SCHEDULE, time := tm\<rparr>)
      | SCHEDULE \<Rightarrow> (None, j\<lparr>time := tm\<rparr>)
      | REVOKING \<Rightarrow> (None, j\<lparr>time := tm\<rparr>))"
  by (cases "state j") (simp_all add: Reschedule_def compare_exchange_strong_def)

lemma Revoke_cases:
  "Revoke j =
     (case state j of
        IDLE \<Rightarrow> (None, j)
      | REVOKING \<Rightarrow> (Some (job j), j)
      | SUBMITTED \<Rightarrow> (Some (job j), j\<lparr>state := REVOKING\<rparr>)
      | EXECUTING \<Rightarrow> (Some (job j), j\<lparr>state := REVOKING\<rparr>)
      | RESUBMIT \<Rightarrow> (Some (job j), j\<lparr>state := REVOKING\<rparr>)
      | SCHEDULE \<Rightarrow> (Some (job j), j\<lparr>state := REVOKING\<rparr>))"
  by (cases "state j")
    (simp_all add: Revoke_def RevokeRequired_def compare_exchange_strong_def)

lemma Resubmit_cases:
  "Resubmit tm j =
     (case state j of
        EXECUTING \<Rightarrow> (None, tm, j\<lparr>state := IDLE\<rparr>)
      | RESUBMIT \<Rightarrow> (Some (job j), tm, j\<lparr>state := SUBMITTED\<rparr>)
      | SCHEDULE \<Rightarrow> (Some (job j), time j, j\<lparr>state := SUBMITTED\<rparr>)
      | IDLE \<Rightarrow> (None, tm, j)
      | SUBMITTED \<Rightarrow> (None, tm, j)
      | REVOKING \<Rightarrow> (None, tm, j))"
  by (cases "state j") (simp_all add: Resubmit_def compare_exchange_strong_def)

lemma Dispatch_cases:
  "Dispatch body j =
     (if state j = SUBMITTED
      then body (j\<lparr>state := EXECUTING\<rparr>)
      else j)"
  by (simp add: Dispatch_def compare_exchange_strong_def)

lemma Revoked_cases:
  "Revoked j = (if state j = REVOKING then Some (j\<lparr>state := IDLE\<rparr>) else None)"
  by (simp add: Revoked_def compare_exchange_strong_def)

lemma Closure_Resubmit_cases:
  "Closure Resubmit now p j =
     (case state j of
        EXECUTING \<Rightarrow> ([], j\<lparr>state := IDLE\<rparr>)
      | RESUBMIT \<Rightarrow> ([Post (job j)], j\<lparr>state := SUBMITTED\<rparr>)
      | SCHEDULE \<Rightarrow>
          (if \<not> IsValid (time j) \<or> \<not> scheduler p \<or> Ticks (time j) < now
           then [Post (job j)] else [Schedule (time j) (job j)], j\<lparr>state := SUBMITTED\<rparr>)
      | IDLE \<Rightarrow> ([], j)
      | SUBMITTED \<Rightarrow> ([], j)
      | REVOKING \<Rightarrow> ([], j))"
  by (cases "state j") (simp_all add: Closure_def Resubmit_cases IsValid_def)

section \<open>Submit\<close>

text \<open>
  Claim C2, as the code has it. \<^verbatim>\<open>Submit\<close> returns a handle if and only if the state was
  IDLE, which becomes SUBMITTED; from EXECUTING and from SCHEDULE the state becomes
  RESUBMIT and no handle is returned; from SUBMITTED, RESUBMIT and REVOKING no handle is
  returned and nothing changes. In no case is the stored time written: from SCHEDULE it is
  left in the object as it was.
\<close>

theorem Submit_transitions:
  "((fst (Submit j) \<noteq> None) = (state j = IDLE)) \<and>
   Submit j =
     (case state j of
        IDLE \<Rightarrow> (Some (job j), j\<lparr>state := SUBMITTED\<rparr>)
      | EXECUTING \<Rightarrow> (None, j\<lparr>state := RESUBMIT\<rparr>)
      | SCHEDULE \<Rightarrow> (None, j\<lparr>state := RESUBMIT\<rparr>)
      | SUBMITTED \<Rightarrow> (None, j)
      | RESUBMIT \<Rightarrow> (None, j)
      | REVOKING \<Rightarrow> (None, j)) \<and>
   time (snd (Submit j)) = time j"
  by (cases "state j") (simp_all add: Submit_cases)

text \<open>
  The stored time is not dropped: a job in SCHEDULE with the time 5 stored is left in
  RESUBMIT with the time 5 still stored.
\<close>

theorem Submit_keeps_time_counterexample:
  "fst (Submit \<lparr>implementation = (), state = SCHEDULE, job = 0, time = Some 5\<rparr>) = None \<and>
   state (snd (Submit \<lparr>implementation = (), state = SCHEDULE, job = 0, time = Some 5\<rparr>))
     = RESUBMIT \<and>
   time (snd (Submit \<lparr>implementation = (), state = SCHEDULE, job = 0, time = Some 5\<rparr>))
     \<noteq> None"
  by (simp add: Submit_cases)

text \<open>
  The time that stays behind is observable. The job below is submitted while in SCHEDULE
  with the time 5, runs once and is IDLE again; it is then rescheduled for the time 9,
  which yields a handle and stores nothing, and the closure that follows reports the
  time 5.
\<close>

lemma stored_time_resurfaces:
  "(let j0 = \<lparr>implementation = (), state = SCHEDULE, job = 0, time = Some 5\<rparr>;
        (h1, j1) = Submit j0;
        (h2, t2, j2) = Resubmit None j1;
        j3 = Dispatch id j2;
        (h4, t4, j4) = Resubmit None j3;
        (h5, j5) = Reschedule (Some 9) j4;
        (h6, t6, j6) = Resubmit None j5
    in (state j1, h2, t2, state j4, h5, state j5, h6, t6)) =
   (RESUBMIT, Some 0, None, IDLE, Some 0, SCHEDULE, Some 0, Some 5)"
  by (simp add: Submit_cases Resubmit_cases Dispatch_cases Reschedule_cases)

section \<open>Reschedule\<close>

text \<open>
  Claim C3, as the code has it. \<^verbatim>\<open>Reschedule(t)\<close> called while the state is IDLE or
  SUBMITTED moves the state to SCHEDULE and returns a handle, and leaves the stored time as
  it was. The time \<open>t\<close> is stored exactly when no handle is returned. So a job that the call
  leaves in SCHEDULE without a handle (it was EXECUTING, RESUBMIT or SCHEDULE) holds \<open>t\<close>,
  and a job that the call puts in SCHEDULE with a handle holds the time stored before.
\<close>

theorem Reschedule_yielding:
  "(state j = IDLE \<or> state j = SUBMITTED \<longrightarrow>
      Reschedule tm j = (Some (job j), j\<lparr>state := SCHEDULE\<rparr>)) \<and>
   time (snd (Reschedule tm j)) = (if fst (Reschedule tm j) = None then tm else time j) \<and>
   ((state (snd (Reschedule tm j)) = SCHEDULE \<and> fst (Reschedule tm j) = None)
      = (state j = EXECUTING \<or> state j = RESUBMIT \<or> state j = SCHEDULE))"
  by (cases "state j") (simp_all add: Reschedule_cases)

theorem Reschedule_yielding_witness:
  "state (JobType_new () 3) = IDLE \<and>
   Reschedule (Some 7) (JobType_new () 3) =
     (Some 3, \<lparr>implementation = (), state = SCHEDULE, job = 3, time = None\<rparr>)"
  using Reschedule_yielding [of "JobType_new () 3" "Some 7"]
  by (simp add: JobType_new_def)

text \<open>
  A new job rescheduled for the time 7 is in SCHEDULE, a handle is returned, and the time
  7 is not stored.
\<close>

theorem Reschedule_idle_counterexample:
  "fst (Reschedule (Some 7) (JobType_new () 3)) = Some 3 \<and>
   state (snd (Reschedule (Some 7) (JobType_new () 3))) = SCHEDULE \<and>
   time (snd (Reschedule (Some 7) (JobType_new () 3))) \<noteq> Some 7"
  by (simp add: Reschedule_cases JobType_new_def)

text \<open>
  Claim C4, as the code has it. \<^verbatim>\<open>Reschedule(t)\<close> called while the state is SCHEDULE or
  REVOKING returns no handle and leaves the state as it was, and it overwrites the stored
  time with \<open>t\<close>: nothing else changes.
\<close>

theorem Reschedule_without_handle:
  "state j = SCHEDULE \<or> state j = REVOKING \<Longrightarrow>
     Reschedule tm j = (None, j\<lparr>time := tm\<rparr>)"
  by (auto simp add: Reschedule_cases)

theorem Reschedule_without_handle_witness:
  "Reschedule (Some 9) \<lparr>implementation = (), state = SCHEDULE, job = 0, time = Some 5\<rparr> =
     (None, \<lparr>implementation = (), state = SCHEDULE, job = 0, time = Some 9\<rparr>)"
  using Reschedule_without_handle
    [of "\<lparr>implementation = (), state = SCHEDULE, job = 0, time = Some 5\<rparr>" "Some 9"]
  by simp

text \<open>
  A job in SCHEDULE with the time 5 stored, rescheduled for the time 9, does not keep the
  time 5.
\<close>

theorem Reschedule_overwrites_counterexample:
  "fst (Reschedule (Some 9)
          \<lparr>implementation = (), state = SCHEDULE, job = 0, time = Some 5\<rparr>) = None \<and>
   state (snd (Reschedule (Some 9)
          \<lparr>implementation = (), state = SCHEDULE, job = 0, time = Some 5\<rparr>)) = SCHEDULE \<and>
   time (snd (Reschedule (Some 9)
          \<lparr>implementation = (), state = SCHEDULE, job = 0, time = Some 5\<rparr>)) \<noteq> Some 5"
  by (simp add: Reschedule_cases)

section \<open>The callbacks of the worker\<close>

text \<open>
  Claim C5. The closure callback \<^verbatim>\<open>Resubmit\<close> returns no handle when the state is
  EXECUTING, which becomes IDLE. From RESUBMIT the state becomes SUBMITTED and a handle is
  returned with the output time as it was passed in; from SCHEDULE the state becomes
  SUBMITTED, a handle is returned and the output time is the stored time. From every other
  state no handle is returned and nothing changes.
\<close>

theorem Resubmit_transitions:
  "Resubmit tm j =
     (case state j of
        EXECUTING \<Rightarrow> (None, tm, j\<lparr>state := IDLE\<rparr>)
      | RESUBMIT \<Rightarrow> (Some (job j), tm, j\<lparr>state := SUBMITTED\<rparr>)
      | SCHEDULE \<Rightarrow> (Some (job j), time j, j\<lparr>state := SUBMITTED\<rparr>)
      | IDLE \<Rightarrow> (None, tm, j)
      | SUBMITTED \<Rightarrow> (None, tm, j)
      | REVOKING \<Rightarrow> (None, tm, j)) \<and>
   ((fst (Resubmit tm j) \<noteq> None) = (state j = RESUBMIT \<or> state j = SCHEDULE))"
  by (cases "state j") (simp_all add: Resubmit_cases)

text \<open>
  Claim C6. The dispatch callback \<^verbatim>\<open>Dispatch\<close> invokes the body of the implementation if
  and only if the state was SUBMITTED, and the body then finds the job in EXECUTING; from
  every other state the job is left as it was, whatever the body is. The result depends on
  the body exactly when the state was SUBMITTED.
\<close>

theorem Dispatch_transitions:
  "Dispatch body j = (if state j = SUBMITTED then body (j\<lparr>state := EXECUTING\<rparr>) else j) \<and>
   ((\<forall>b b'. Dispatch b j = Dispatch b' j) = (state j \<noteq> SUBMITTED))"
proof -
  have "\<exists>b b'. Dispatch b j \<noteq> Dispatch b' j" if sub: "state j = SUBMITTED"
  proof -
    let ?b = "\<lambda>x::'a JobType. x\<lparr>state := IDLE\<rparr>"
    let ?b' = "\<lambda>x::'a JobType. x\<lparr>state := REVOKING\<rparr>"
    have "state (Dispatch ?b j) = IDLE" "state (Dispatch ?b' j) = REVOKING"
      using sub by (simp_all add: Dispatch_cases)
    then have "Dispatch ?b j \<noteq> Dispatch ?b' j"
      by auto
    then show ?thesis by blast
  qed
  moreover have "Dispatch b j = Dispatch b' j" if "state j \<noteq> SUBMITTED" for b b'
    using that by (simp add: Dispatch_cases)
  ultimately show ?thesis
    by (auto simp add: Dispatch_cases)
qed

section \<open>Revoke\<close>

text \<open>
  Claim C7. \<^verbatim>\<open>Revoke\<close> returns a handle if and only if the state is not IDLE. In
  REVOKING it returns a handle and leaves the state; from SUBMITTED, EXECUTING, RESUBMIT and
  SCHEDULE the state becomes REVOKING and a handle is returned; from IDLE no handle is
  returned and nothing changes.
\<close>

theorem Revoke_transitions:
  "((fst (Revoke j) \<noteq> None) = (state j \<noteq> IDLE)) \<and>
   Revoke j =
     (case state j of
        IDLE \<Rightarrow> (None, j)
      | REVOKING \<Rightarrow> (Some (job j), j)
      | SUBMITTED \<Rightarrow> (Some (job j), j\<lparr>state := REVOKING\<rparr>)
      | EXECUTING \<Rightarrow> (Some (job j), j\<lparr>state := REVOKING\<rparr>)
      | RESUBMIT \<Rightarrow> (Some (job j), j\<lparr>state := REVOKING\<rparr>)
      | SCHEDULE \<Rightarrow> (Some (job j), j\<lparr>state := REVOKING\<rparr>))"
  by (cases "state j") (simp_all add: Revoke_cases)

section \<open>ThreadPool::Revoke\<close>

lemma Completed_outcomes:
  "Completed request waitTime m = (ERROR_UNKNOWN_KEY, False) \<or>
   Completed request waitTime m = (ERROR_NONE, True) \<or>
   Completed request waitTime m = (ERROR_TIMEDOUT, True)"
  by (simp add: Completed_def Lock_signal_def)

lemma Revoke_units_decided:
  "result \<noteq> ERROR_UNKNOWN_KEY \<Longrightarrow>
     Revoke_units caller request waitTime (result, waited) us = (result, waited)"
  by (cases us) simp_all

lemma Revoke_units_first_outcome:
  "fst (Revoke_units caller request waitTime (ERROR_UNKNOWN_KEY, waited) us) =
     first_outcome caller request waitTime us"
proof (induction us arbitrary: waited)
  case Nil
  show ?case by simp
next
  case (Cons u us)
  show ?case
    using Completed_outcomes [of request waitTime "Me u"] Cons.IH
    by (auto simp add: Revoke_units_decided)
qed

lemma Revoke_units_passed_over:
  "list_all (passed_over caller request waitTime) pre \<Longrightarrow>
     Revoke_units caller request waitTime (ERROR_UNKNOWN_KEY, waited) (pre @ rest) =
     Revoke_units caller request waitTime (ERROR_UNKNOWN_KEY, waited) rest"
proof (induction pre arbitrary: waited)
  case Nil
  show ?case by simp
next
  case (Cons u us)
  then show ?case
    using Completed_outcomes [of request waitTime "Me u"]
    by (auto simp add: passed_over_def)
qed

text \<open>
  Claim C8. The error code \<^verbatim>\<open>ThreadPool::Revoke\<close> returns is the outcome the
  specification words: OK if the handle is removed from the queue; otherwise OK at the
  first worker whose thread is the caller's, or the first answer of a worker's
  \<^verbatim>\<open>Completed\<close> that is OK or TIMEDOUT, whichever worker comes first, workers that answer
  UNKNOWN_KEY being skipped; and UNKNOWN_KEY if the workers run out.
\<close>

theorem ThreadPool_Revoke_outcome:
  "fst (fst (ThreadPool_Revoke caller request waitTime p)) =
     Revoke_spec caller request waitTime p"
  by (simp add: ThreadPool_Revoke_def Revoke_spec_def Revoke_units_first_outcome
      split: prod.splits)

text \<open>
  Claim C10. A call of \<^verbatim>\<open>ThreadPool::Revoke\<close> from the thread of the worker \<open>own\<close> of the
  pool, for a handle that is not in the queue, with every worker before \<open>own\<close> passed over,
  returns OK and has waited on no worker. Nothing is asked of \<open>own\<close> or of the workers after
  it: the result is the same whatever they are running, the revoked job included.
\<close>

theorem Revoke_from_worker_thread:
  assumes "\<not> fst (Remove request (queue p))"
    and "units p = pre @ own # post"
    and "Id_thread own = caller"
    and "list_all (passed_over caller request waitTime) pre"
  shows "fst (ThreadPool_Revoke caller request waitTime p) = (ERROR_NONE, [])"
proof -
  have "Revoke_units caller request waitTime (ERROR_UNKNOWN_KEY, []) (pre @ own # post) =
        Revoke_units caller request waitTime (ERROR_UNKNOWN_KEY, []) (own # post)"
    using assms(4) by (rule Revoke_units_passed_over)
  also have "\<dots> = (ERROR_NONE, [])"
    using assms(3) by (simp add: Revoke_units_decided)
  finally show ?thesis
    using assms(1,2) by (simp add: ThreadPool_Revoke_def split: prod.splits)
qed

text \<open>
  The worker with thread 12, busy with the job 7, revokes the job 5, which the worker
  with thread 13, later in the list, is running and will not finish within the wait time.
\<close>

theorem Revoke_from_worker_thread_witness:
  "fst (ThreadPool_Revoke 12 5 0
     \<lparr>queue = [8],
      units = [\<lparr>Id_thread = 11, Me = \<lparr>signal = (\<lambda>w. False), currentRequest = None\<rparr>\<rparr>,
               \<lparr>Id_thread = 12, Me = \<lparr>signal = (\<lambda>w. False), currentRequest = Some 7\<rparr>\<rparr>,
               \<lparr>Id_thread = 13, Me = \<lparr>signal = (\<lambda>w. False), currentRequest = Some 5\<rparr>\<rparr>],
      scheduler = False\<rparr>) = (ERROR_NONE, [])"
  using Revoke_from_worker_thread
    [of 5 "\<lparr>queue = [8],
      units = [\<lparr>Id_thread = 11, Me = \<lparr>signal = (\<lambda>w. False), currentRequest = None\<rparr>\<rparr>,
               \<lparr>Id_thread = 12, Me = \<lparr>signal = (\<lambda>w. False), currentRequest = Some 7\<rparr>\<rparr>,
               \<lparr>Id_thread = 13, Me = \<lparr>signal = (\<lambda>w. False), currentRequest = Some 5\<rparr>\<rparr>],
      scheduler = False\<rparr>"
      "[\<lparr>Id_thread = 11, Me = \<lparr>signal = (\<lambda>w. False), currentRequest = None\<rparr>\<rparr>]"
      "\<lparr>Id_thread = 12, Me = \<lparr>signal = (\<lambda>w. False), currentRequest = Some 7\<rparr>\<rparr>"
      "[\<lparr>Id_thread = 13, Me = \<lparr>signal = (\<lambda>w. False), currentRequest = Some 5\<rparr>\<rparr>]"
      12 0]
  by (simp add: Remove_def passed_over_def Completed_def)

section \<open>ThreadPool::Closure\<close>

text \<open>
  Claim C9. When the \<^verbatim>\<open>Resubmit\<close> of the job returns a valid handle, \<^verbatim>\<open>Closure\<close> makes
  exactly one call: it posts the handle on the queue when the returned time is not valid,
  or the pool has no scheduler, or the time is earlier than the current time, and in every
  other case it hands the handle to \<^verbatim>\<open>Schedule\<close> of the scheduler with that time.
\<close>

theorem Closure_routes:
  assumes "IJob_Resubmit None j = (Some h, tm, j')"
  shows "Closure IJob_Resubmit now p j =
           (if \<not> IsValid tm \<or> \<not> scheduler p \<or> Ticks tm < now
            then [Post h] else [Schedule tm h], j')"
  using assms by (simp add: Closure_def)

theorem Closure_routes_witness:
  "Closure Resubmit 3 \<lparr>queue = [], units = [], scheduler = True\<rparr>
     \<lparr>implementation = (), state = SCHEDULE, job = 4, time = Some 9\<rparr> =
     ([Schedule (Some 9) 4], \<lparr>implementation = (), state = SUBMITTED, job = 4, time = Some 9\<rparr>)"
  using Closure_routes
    [of Resubmit "\<lparr>implementation = (), state = SCHEDULE, job = 4, time = Some 9\<rparr>"
      4 "Some 9" "\<lparr>implementation = (), state = SUBMITTED, job = 4, time = Some 9\<rparr>"
      3 "\<lparr>queue = [], units = [], scheduler = True\<rparr>"]
  by (simp add: Resubmit_cases IsValid_def Ticks_def)

section \<open>The handles a job yields\<close>




text \<open>Every state is the state of a new job after some sequence of operations.\<close>

lemma every_state_reached:
  "\<exists>ops hs j. perform_all ops (JobType_new args self) = Some (hs, j) \<and> state j = s"
proof (cases s)
  case IDLE
  show ?thesis
    by (rule exI [of _ "[]"]) (simp add: IDLE JobType_new_def)
next
  case SUBMITTED
  show ?thesis
    by (rule exI [of _ "[OpSubmit]"])
      (simp add: SUBMITTED JobType_new_def Submit_cases)
next
  case EXECUTING
  show ?thesis
    by (rule exI [of _ "[OpSubmit, OpDispatch]"])
      (simp add: EXECUTING JobType_new_def Submit_cases Dispatch_cases)
next
  case RESUBMIT
  show ?thesis
    by (rule exI [of _ "[OpSubmit, OpDispatch, OpSubmit]"])
      (simp add: RESUBMIT JobType_new_def Submit_cases Dispatch_cases)
next
  case SCHEDULE
  show ?thesis
    by (rule exI [of _ "[OpReschedule None]"])
      (simp add: SCHEDULE JobType_new_def Reschedule_cases)
next
  case REVOKING
  show ?thesis
    by (rule exI [of _ "[OpSubmit, OpRevoke]"])
      (simp add: REVOKING JobType_new_def Submit_cases Revoke_cases)
qed

text \<open>
  The state SUBMITTED is entered only by an operation that yields a handle: a job found in
  SUBMITTED has a handle out that no operation on it has taken back since.
\<close>

lemma SUBMITTED_entered_with_handle:
  "perform x j = Some (h, j') \<Longrightarrow> state j \<noteq> SUBMITTED \<Longrightarrow> state j' = SUBMITTED \<Longrightarrow>
     h = Some (job j)"
  by (cases x; cases "state j")
    (auto simp add: Submit_cases Reschedule_cases Revoke_cases Resubmit_cases
      Revoked_cases Dispatch_cases)




text \<open>
  Two more sequences that yield a handle for dispatch a second time while the first is
  out. In the first the job is revoked while a worker runs it and \<^verbatim>\<open>Revoked\<close> is called
  before the closure of that run: the job is IDLE and the next submit yields. In the second
  the job is rescheduled, its handle going to the scheduler, and revoked:
  \<^verbatim>\<open>ThreadPool::Revoke\<close> finds the handle neither in the queue nor with a worker, answers
  UNKNOWN_KEY and leaves the pool as it is, and after \<^verbatim>\<open>Revoked\<close> the next submit yields.
\<close>

lemma Revoked_while_running:
  "perform_all [OpSubmit, OpDispatch, OpRevoke, OpRevoked, OpSubmit] (JobType_new () 0) =
     Some ([Some 0, None, Some 0, None, Some 0],
           \<lparr>implementation = (), state = SUBMITTED, job = 0, time = None\<rparr>)"
  by (simp add: JobType_new_def Submit_cases Dispatch_cases Revoke_cases Revoked_cases)

lemma Revoked_while_scheduled:
  "perform_all [OpReschedule (Some 5), OpRevoke, OpRevoked, OpSubmit] (JobType_new () 0) =
     Some ([Some 0, Some 0, None, Some 0],
           \<lparr>implementation = (), state = SUBMITTED, job = 0, time = None\<rparr>) \<and>
   ThreadPool_Revoke 1 0 0
     \<lparr>queue = [],
      units = [\<lparr>Id_thread = 2, Me = \<lparr>signal = (\<lambda>w. True), currentRequest = None\<rparr>\<rparr>],
      scheduler = True\<rparr> =
     ((ERROR_UNKNOWN_KEY, []),
      \<lparr>queue = [],
       units = [\<lparr>Id_thread = 2, Me = \<lparr>signal = (\<lambda>w. True), currentRequest = None\<rparr>\<rparr>],
       scheduler = True\<rparr>)"
  by (simp add: JobType_new_def Submit_cases Reschedule_cases Revoke_cases Revoked_cases
      ThreadPool_Revoke_def Remove_def Completed_def)

end
